theory Spec2Isabelle
  imports Complex_Main "HOL-Library.Word" "HOL-Library.Monad_Syntax"
begin

unbundle bit_operations_syntax

section \<open>Data model\<close>

text \<open>
  The header \<open>charconv_ext.hpp\<close> works on \<open>unsigned __int128\<close> and \<open>signed __int128\<close>
  (both 128-bit words here, the signed one read through \<open>sint\<close>), on \<open>std::uint64_t\<close>
  pieces, and on character ranges given by two pointers.

  A read-only range \<open>[first, last)\<close> of \<open>from_chars\<close> is a \<open>string\<close>; a pointer into
  it is its offset from \<open>first\<close>, so \<open>first\<close> is 0 and \<open>last\<close> is the length.
  The writable buffer of \<open>to_chars\<close> lives in a flat store of characters indexed by
  address, so that a write outside \<open>[first, last)\<close> is visible in the result.

  A result \<open>None\<close> of a function of the header means that the call does not return:
  an assertion of the header fails (or a loop does not end).
\<close>

type_synonym uint64_t = "64 word"
type_synonym int64_t = "64 word"
type_synonym uint128_t = "128 word"
type_synonym int128_t = "128 word"
type_synonym memory = "nat \<Rightarrow> char"

datatype errc = errc_ok | invalid_argument | result_out_of_range | value_too_large

record chars_result =
  ptr :: nat
  ec :: errc

section \<open>Radix metadata tables\<close>

text \<open>
  The loop of \<open>u64_max_representable_digits_naive\<close>. The accumulator is an \<open>int128_t\<close>
  that never exceeds \<open>36 * 2 ^ 64\<close> when the loop is entered with \<open>base \<le> 36\<close>, so signed
  overflow is out of reach and a mathematical integer stands for it.
\<close>

partial_function (option) naive_loop :: "int \<Rightarrow> int \<Rightarrow> nat \<Rightarrow> nat option" where
  "naive_loop base x result =
     (if x \<le> 2 ^ 64
      then (let x' = x * base; result' = result + 1
            in if x' = 0 then Some result' else naive_loop base x' result')
      else Some result)"

declare naive_loop.simps [code]

definition u64_max_representable_digits_naive :: "int \<Rightarrow> nat option" where
  "u64_max_representable_digits_naive base =
     (if base \<ge> 2 then map_option (\<lambda>result. result - 1) (naive_loop base 1 0) else None)"

definition u64_max_representable_digits_table :: "nat option list" where
  "u64_max_representable_digits_table =
     map (\<lambda>i. if i < 2 then Some 0 else u64_max_representable_digits_naive (int i)) [0..<37]"

definition u64_max_representable_digits :: "int \<Rightarrow> nat option" where
  "u64_max_representable_digits base =
     (if base \<ge> 2 \<and> base \<le> 36 then u64_max_representable_digits_table ! nat base else None)"

function u64_pow_loop :: "uint64_t \<Rightarrow> int \<Rightarrow> int \<Rightarrow> uint64_t \<Rightarrow> uint64_t" where
  "u64_pow_loop x y i result = (if i < y then u64_pow_loop x y (i + 1) (result * x) else result)"
  by pat_completeness auto
termination
  by (relation "measure (\<lambda>(x, y, i, result). nat (y - i))") auto

declare u64_pow_loop.simps [simp del]

definition u64_pow_naive :: "uint64_t \<Rightarrow> int \<Rightarrow> uint64_t" where
  "u64_pow_naive x y = u64_pow_loop x y 0 1"

definition u64_max_power_table :: "uint64_t option list" where
  "u64_max_power_table =
     map (\<lambda>i. if i < 2 then Some 0
               else map_option (\<lambda>max_exponent. u64_pow_naive (of_nat i) (int max_exponent))
                      (u64_max_representable_digits (int i))) [0..<37]"

definition u64_max_power :: "int \<Rightarrow> uint64_t option" where
  "u64_max_power base =
     (if base \<ge> 2 \<and> base \<le> 36 then u64_max_power_table ! nat base else None)"

section \<open>Overflow-checked arithmetic\<close>

text \<open>\<open>__builtin_add_overflow\<close> and \<open>__builtin_mul_overflow\<close> on \<open>uint128_t\<close>: the
  wrapped result is stored, and the flag says whether the exact result did not fit.\<close>

definition add_overflow :: "uint128_t \<Rightarrow> uint128_t \<Rightarrow> bool \<times> uint128_t" where
  "add_overflow x y = (uint x + uint y \<ge> 2 ^ 128, x + y)"

definition mul_overflow :: "uint128_t \<Rightarrow> uint128_t \<Rightarrow> bool \<times> uint128_t" where
  "mul_overflow x y = (uint x * uint y \<ge> 2 ^ 128, x * y)"

section \<open>Digit scanner\<close>

definition digit_value :: "char \<Rightarrow> int" where
  "digit_value c =
     (if of_char c \<ge> (of_char CHR ''0'' :: int) \<and> of_char c \<le> (of_char CHR ''9'' :: int)
      then of_char c - of_char CHR ''0''
      else if of_char c \<ge> (of_char CHR ''A'' :: int) \<and> of_char c \<le> (of_char CHR ''Z'' :: int)
      then of_char c - of_char CHR ''A'' + 10
      else if of_char c \<ge> (of_char CHR ''a'' :: int) \<and> of_char c \<le> (of_char CHR ''z'' :: int)
      then of_char c - of_char CHR ''a'' + 10
      else - 1)"

fun pattern_length :: "string \<Rightarrow> int \<Rightarrow> nat" where
  "pattern_length [] base = 0"
| "pattern_length (c # cs) base =
     (let v = digit_value c
      in if v < 0 \<or> v \<ge> base then 0 else Suc (pattern_length cs base))"

section \<open>The standard library's conversions of native integers\<close>

text \<open>
  \<open>std::from_chars\<close> and \<open>std::to_chars\<close> for the native integer types are not part of
  the header; they are written here after the C++ standard ([charconv.from.chars],
  [charconv.to.chars]). The pattern of \<open>std::from_chars\<close> in a base is the longest run
  of digits of that base, letters in either case, the alphabet that \<open>digit_value\<close>
  decodes; a minus sign may come first for a signed type only. On an error the value is
  left as it was. \<open>std::to_chars\<close> writes the digits without leading zeros, letters in
  lower case; when they do not fit, it returns \<open>last\<close> with \<open>value_too_large\<close> and the
  content of the buffer is unspecified (left as it was here).
\<close>

definition parse_value :: "int \<Rightarrow> string \<Rightarrow> int" where
  "parse_value base cs = foldl (\<lambda>acc c. acc * base + digit_value c) 0 cs"

definition std_from_chars_unsigned :: "nat \<Rightarrow> string \<Rightarrow> int \<Rightarrow> int \<Rightarrow> chars_result \<times> int" where
  "std_from_chars_unsigned width cs val base =
     (let n = pattern_length cs base
      in if n = 0 then (\<lparr>ptr = 0, ec = invalid_argument\<rparr>, val)
         else let v = parse_value base (take n cs)
              in if v > 2 ^ width - 1 then (\<lparr>ptr = n, ec = result_out_of_range\<rparr>, val)
                 else (\<lparr>ptr = n, ec = errc_ok\<rparr>, v))"

definition std_from_chars_signed :: "nat \<Rightarrow> string \<Rightarrow> int \<Rightarrow> int \<Rightarrow> chars_result \<times> int" where
  "std_from_chars_signed width cs val base =
     (let neg = (cs \<noteq> [] \<and> hd cs = CHR ''-'');
          ds = (if neg then tl cs else cs);
          n = pattern_length ds base
      in if n = 0 then (\<lparr>ptr = 0, ec = invalid_argument\<rparr>, val)
         else let m = parse_value base (take n ds);
                  v = (if neg then - m else m);
                  p = (if neg then n + 1 else n)
              in if v < - (2 ^ (width - 1)) \<or> v > 2 ^ (width - 1) - 1
                 then (\<lparr>ptr = p, ec = result_out_of_range\<rparr>, val)
                 else (\<lparr>ptr = p, ec = errc_ok\<rparr>, v))"

definition std_from_chars_u64 :: "string \<Rightarrow> uint64_t \<Rightarrow> int \<Rightarrow> chars_result \<times> uint64_t" where
  "std_from_chars_u64 cs val base =
     (let (r, v) = std_from_chars_unsigned 64 cs (uint val) base in (r, word_of_int v))"

definition std_from_chars_i64 :: "string \<Rightarrow> int64_t \<Rightarrow> int \<Rightarrow> chars_result \<times> int64_t" where
  "std_from_chars_i64 cs val base =
     (let (r, v) = std_from_chars_signed 64 cs (sint val) base in (r, word_of_int v))"

definition digit_char :: "nat \<Rightarrow> char" where
  "digit_char n = ''0123456789abcdefghijklmnopqrstuvwxyz'' ! n"

function to_digits :: "nat \<Rightarrow> nat \<Rightarrow> string" where
  "to_digits b n =
     (if n < b \<or> b < 2 then [digit_char n] else to_digits b (n div b) @ [digit_char (n mod b)])"
  by pat_completeness auto
termination
  by (relation "measure (\<lambda>(b, n). n)") auto

declare to_digits.simps [simp del]

definition write_chars :: "memory \<Rightarrow> nat \<Rightarrow> string \<Rightarrow> memory" where
  "write_chars mem a s = (\<lambda>i. if a \<le> i \<and> i < a + length s then s ! (i - a) else mem i)"

definition std_to_chars_u64 ::
  "memory \<Rightarrow> nat \<Rightarrow> nat \<Rightarrow> uint64_t \<Rightarrow> int \<Rightarrow> chars_result \<times> memory" where
  "std_to_chars_u64 mem first last' val base =
     (let s = to_digits (nat base) (unat val)
      in if length s > last' - first then (\<lparr>ptr = last', ec = value_too_large\<rparr>, mem)
         else (\<lparr>ptr = first + length s, ec = errc_ok\<rparr>, write_chars mem first s))"

definition std_to_chars_i64 ::
  "memory \<Rightarrow> nat \<Rightarrow> nat \<Rightarrow> int64_t \<Rightarrow> int \<Rightarrow> chars_result \<times> memory" where
  "std_to_chars_i64 mem first last' val base =
     (let s = (if sint val < 0 then CHR ''-'' # to_digits (nat base) (nat (- sint val))
               else to_digits (nat base) (nat (sint val)))
      in if length s > last' - first then (\<lparr>ptr = last', ec = value_too_large\<rparr>, mem)
         else (\<lparr>ptr = first + length s, ec = errc_ok\<rparr>, write_chars mem first s))"

text \<open>\<open>std::countr_zero\<close> and \<open>std::countl_zero\<close> on \<open>std::uint64_t\<close>; both are 64 at 0.\<close>

definition countr_zero :: "uint64_t \<Rightarrow> nat" where
  "countr_zero w = length (takeWhile (\<lambda>n. \<not> bit w n) [0..<64])"

definition countl_zero :: "uint64_t \<Rightarrow> nat" where
  "countl_zero w = length (takeWhile (\<lambda>n. \<not> bit w n) (rev [0..<64]))"

text \<open>
  \<open>std::ranges::copy\<close> and \<open>std::ranges::fill_n\<close> on character pointers. The header
  copies a piece to the right inside the same buffer, onto a range that may overlap the
  source. The library carries out a copy of characters as a \<open>memmove\<close>, and the expected
  strings of the repository's tests are the ones this gives: every character of the
  source is read as it was before the call.
\<close>

definition ranges_copy :: "memory \<Rightarrow> nat \<Rightarrow> nat \<Rightarrow> nat \<Rightarrow> memory" where
  "ranges_copy mem src_first src_last dst =
     (\<lambda>a. if dst \<le> a \<and> a < dst + (src_last - src_first) then mem (src_first + (a - dst))
          else mem a)"

definition ranges_fill_n :: "memory \<Rightarrow> nat \<Rightarrow> int \<Rightarrow> char \<Rightarrow> memory" where
  "ranges_fill_n mem dst n c = (\<lambda>a. if dst \<le> a \<and> int a < int dst + n then c else mem a)"

section \<open>128-bit parser\<close>

partial_function (option) from_chars_pow2_loop ::
  "string \<Rightarrow> int \<Rightarrow> nat \<Rightarrow> nat \<Rightarrow> nat \<Rightarrow> uint128_t \<Rightarrow> uint128_t \<Rightarrow> nat \<Rightarrow> nat
     \<Rightarrow> (chars_result \<times> uint128_t) option" where
  "from_chars_pow2_loop cs base initial_last max_lower_length bits_per_iteration out
       result shift current_last =
     (let lower_length = min current_last max_lower_length;
          current_first = current_last - lower_length;
          (partial_result, digits) =
             std_from_chars_u64 (take lower_length (drop current_first cs)) 0 base
      in if ec partial_result \<noteq> errc_ok
         then (if ec partial_result = invalid_argument
               then Some (\<lparr>ptr = current_first + ptr partial_result,
                           ec = ec partial_result\<rparr>, out)
               else None)
         else let added_digits = 64 - countl_zero digits
              in if shift + added_digits > 128
                 then Some (\<lparr>ptr = initial_last, ec = result_out_of_range\<rparr>, out)
                 else let result' = result OR push_bit shift (ucast digits);
                          shift' = shift + bits_per_iteration
                      in if current_last \<le> max_lower_length \<or> ec partial_result \<noteq> errc_ok
                         then Some (\<lparr>ptr = initial_last, ec = ec partial_result\<rparr>, result')
                         else from_chars_pow2_loop cs base initial_last max_lower_length
                                bits_per_iteration out result' shift'
                                (current_last - lower_length))"

declare from_chars_pow2_loop.simps [code]

partial_function (option) from_chars_loop ::
  "string \<Rightarrow> int \<Rightarrow> nat \<Rightarrow> nat \<Rightarrow> uint64_t \<Rightarrow> uint128_t \<Rightarrow> uint128_t \<Rightarrow> uint128_t \<Rightarrow> nat
     \<Rightarrow> (chars_result \<times> uint128_t) option" where
  "from_chars_loop cs base initial_last max_lower_length max_pow out result factor
       current_last =
     (let lower_length = min current_last max_lower_length;
          current_first = current_last - lower_length;
          (partial_result, digits) =
             std_from_chars_u64 (take lower_length (drop current_first cs)) 0 base;
          (mul_ovf, summand) = mul_overflow factor (ucast digits)
      in if mul_ovf then Some (\<lparr>ptr = initial_last, ec = result_out_of_range\<rparr>, out)
         else let (add_ovf, result') = add_overflow result summand
              in if add_ovf then Some (\<lparr>ptr = initial_last, ec = result_out_of_range\<rparr>, out)
                 else if current_last \<le> max_lower_length \<or> ec partial_result \<noteq> errc_ok
                 then Some (\<lparr>ptr = initial_last, ec = ec partial_result\<rparr>, result')
                 else from_chars_loop cs base initial_last max_lower_length max_pow out
                        result' (factor * ucast max_pow) (current_last - lower_length))"

declare from_chars_loop.simps [code]

definition from_chars_u128 ::
  "string \<Rightarrow> uint128_t \<Rightarrow> int \<Rightarrow> (chars_result \<times> uint128_t) option" where
  "from_chars_u128 cs out base =
     (if \<not> (base \<ge> 2 \<and> base \<le> 36) then None
      else if cs = [] then Some (\<lparr>ptr = length cs, ec = invalid_argument\<rparr>, out)
      else do {
        let initial_last = pattern_length cs base;
        max_pow \<leftarrow> u64_max_power base;
        max_lower_length \<leftarrow> u64_max_representable_digits base;
        let is_pow_2 = (base AND (base - 1) = 0);
        if \<not> (max_pow \<noteq> 0 \<or> is_pow_2) then None
        else if is_pow_2
        then from_chars_pow2_loop cs base initial_last max_lower_length (countr_zero max_pow)
               out 0 0 initial_last
        else from_chars_loop cs base initial_last max_lower_length max_pow out 0 1
               initial_last
      })"

definition from_chars_i128 ::
  "string \<Rightarrow> int128_t \<Rightarrow> int \<Rightarrow> (chars_result \<times> int128_t) option" where
  "from_chars_i128 cs out base =
     (if cs = [] then Some (\<lparr>ptr = length cs, ec = invalid_argument\<rparr>, out)
      else if hd cs \<noteq> CHR ''-''
      then do {
        (result, x) \<leftarrow> from_chars_u128 cs 0 base;
        if drop_bit 127 x \<noteq> 0 then Some (\<lparr>ptr = ptr result, ec = result_out_of_range\<rparr>, out)
        else Some (result, x)
      }
      else do {
        max_lower_length \<leftarrow> u64_max_representable_digits base;
        if length cs + 1 \<le> max_lower_length
        then (let (result, x) = std_from_chars_i64 cs 0 base in Some (result, scast x))
        else do {
          (result, x) \<leftarrow> from_chars_u128 (tl cs) 0 base;
          if x > push_bit 127 1
          then Some (\<lparr>ptr = 1 + ptr result, ec = result_out_of_range\<rparr>, out)
          else Some (\<lparr>ptr = 1 + ptr result, ec = ec result\<rparr>, - x)
        }
      })"

section \<open>128-bit formatter\<close>

partial_function (option) to_chars_pow2_loop ::
  "memory \<Rightarrow> nat \<Rightarrow> uint128_t \<Rightarrow> int \<Rightarrow> nat \<Rightarrow> nat \<Rightarrow> uint64_t \<Rightarrow> nat \<Rightarrow> bool \<Rightarrow> int
     \<Rightarrow> (chars_result \<times> memory) option" where
  "to_chars_pow2_loop mem last' x base piece_max_digits bits_per_iteration msk
       current_first first_digit shift =
     (let piece = ucast (drop_bit (nat shift) x) AND msk;
          (piece_result, mem1) = std_to_chars_u64 mem current_first last' piece base
      in if ec piece_result \<noteq> errc_ok then Some (piece_result, mem1)
         else let zero_pad = int piece_max_digits - (int (ptr piece_result) - int current_first);
                  (current_first', mem2) =
                     (if \<not> first_digit \<and> zero_pad \<noteq> 0
                      then (current_first + piece_max_digits,
                            ranges_fill_n
                              (ranges_copy mem1 current_first (ptr piece_result)
                                 (nat (int current_first + zero_pad)))
                              current_first zero_pad CHR ''0'')
                      else (ptr piece_result, mem1))
              in if shift \<le> 0
                 then (if shift = 0 then Some (\<lparr>ptr = current_first', ec = errc_ok\<rparr>, mem2)
                       else None)
                 else to_chars_pow2_loop mem2 last' x base piece_max_digits bits_per_iteration
                        msk current_first' False (shift - int bits_per_iteration))"

declare to_chars_pow2_loop.simps [code]

definition to_chars_pow2_pieces ::
  "memory \<Rightarrow> nat \<Rightarrow> uint128_t \<Rightarrow> int \<Rightarrow> nat \<Rightarrow> nat \<Rightarrow> nat \<Rightarrow> nat \<Rightarrow> bool
     \<Rightarrow> (chars_result \<times> memory) option" where
  "to_chars_pow2_pieces mem last' x base piece_max_digits bits_per_iteration leading_bits
       current_first first_digit =
     (let shift = 128 - int leading_bits - int bits_per_iteration
      in if \<not> bits_per_iteration \<le> 64 then None
         else let msk = (if bits_per_iteration = 64 then 0 else push_bit bits_per_iteration 1) - 1
              in to_chars_pow2_loop mem last' x base piece_max_digits bits_per_iteration msk
                   current_first first_digit shift)"

partial_function (option) to_chars_u128 ::
  "memory \<Rightarrow> nat \<Rightarrow> nat \<Rightarrow> uint128_t \<Rightarrow> int \<Rightarrow> (chars_result \<times> memory) option" where
  "to_chars_u128 mem first last' x base =
     (if \<not> (base \<ge> 2 \<and> base \<le> 36) then None
      else if x \<le> 0xFFFFFFFFFFFFFFFF then Some (std_to_chars_u64 mem first last' (ucast x) base)
      else if first = last' then Some (\<lparr>ptr = last', ec = value_too_large\<rparr>, mem)
      else do {
        max_pow \<leftarrow> u64_max_power base;
        piece_max_digits \<leftarrow> u64_max_representable_digits base;
        if base AND (base - 1) = 0
        then (let bits_per_iteration = countr_zero max_pow
              in if bits_per_iteration = 0 then None
                 else let leading_bits = 128 mod bits_per_iteration;
                          head = ucast (drop_bit (128 - leading_bits) x)
                                   AND (push_bit leading_bits 1 - 1 :: uint64_t)
                      in if leading_bits \<noteq> 0 \<and> head \<noteq> 0
                         then (let (head_result, mem1) = std_to_chars_u64 mem first last' head base
                               in if ec head_result \<noteq> errc_ok then Some (head_result, mem1)
                                  else to_chars_pow2_pieces mem1 last' x base piece_max_digits
                                         bits_per_iteration leading_bits (ptr head_result) False)
                         else to_chars_pow2_pieces mem last' x base piece_max_digits
                                bits_per_iteration leading_bits first True)
        else if max_pow = 0 then None
        else do {
          (upper_result, mem1) \<leftarrow> to_chars_u128 mem first last' (x div ucast max_pow) base;
          if ec upper_result \<noteq> errc_ok then Some (upper_result, mem1)
          else (let (lower_result, mem2) =
                      std_to_chars_u64 mem1 (ptr upper_result) last' (ucast (x mod ucast max_pow)) base
                in if ec lower_result \<noteq> errc_ok then Some (lower_result, mem2)
                   else let lower_length = ptr lower_result - ptr upper_result;
                            result_end = ptr upper_result + piece_max_digits;
                            mem3 = ranges_copy mem2 (ptr upper_result)
                                     (ptr upper_result + lower_length) (result_end - lower_length);
                            mem4 = ranges_fill_n mem3 (ptr upper_result)
                                     (int piece_max_digits - int lower_length) CHR ''0''
                        in Some (\<lparr>ptr = result_end, ec = errc_ok\<rparr>, mem4))
        }
      })"

declare to_chars_u128.simps [code]

definition to_chars_i128 ::
  "memory \<Rightarrow> nat \<Rightarrow> nat \<Rightarrow> int128_t \<Rightarrow> int \<Rightarrow> (chars_result \<times> memory) option" where
  "to_chars_i128 mem first last' x base =
     (if \<not> (base \<ge> 2 \<and> base \<le> 36) then None
      else if sint x \<ge> 0 then to_chars_u128 mem first last' x base
      else if sint x = sint (ucast x :: int64_t)
      then Some (std_to_chars_i64 mem first last' (ucast x) base)
      else if last' - first < 2 then Some (\<lparr>ptr = last', ec = value_too_large\<rparr>, mem)
      else to_chars_u128 (mem (first := CHR ''-'')) (first + 1) last' (- x) base)"

section \<open>Bit-width generalization layer\<close>

text \<open>
  \<open>detail::int_least<N>\<close> and \<open>detail::uint_least<N>\<close> choose the carrier type; the
  functions here give its width. Beyond 128 bits the header has no carrier and the
  templates do not compile (\<open>None\<close>).

  The wrappers for \<open>_BitInt(N)\<close> and \<open>unsigned _BitInt(N)\<close> call \<open>from_chars\<close> on
  the carrier. Which function that call resolves to (the standard library's or the
  header's own, for a 128-bit carrier) depends on the build, so it is a parameter,
  indexed by the width of the carrier. Values are mathematical integers in the
  carrier's range; \<open>static_cast\<close> to \<open>N\<close> bits keeps the low \<open>N\<close> bits.
\<close>

definition int_least :: "nat \<Rightarrow> nat option" where
  "int_least N =
     (if N \<le> 8 then Some 8 else if N \<le> 16 then Some 16 else if N \<le> 32 then Some 32
      else if N \<le> 64 then Some 64 else if N \<le> 128 then Some 128 else None)"

definition uint_least :: "nat \<Rightarrow> nat option" where
  "uint_least N =
     (if N \<le> 8 then Some 8 else if N \<le> 16 then Some 16 else if N \<le> 32 then Some 32
      else if N \<le> 64 then Some 64 else if N \<le> 128 then Some 128 else None)"

type_synonym carrier_from_chars = "nat \<Rightarrow> string \<Rightarrow> int \<Rightarrow> int \<Rightarrow> (chars_result \<times> int) option"

definition from_chars_bit_int ::
  "carrier_from_chars \<Rightarrow> nat \<Rightarrow> string \<Rightarrow> int \<Rightarrow> int \<Rightarrow> (chars_result \<times> int) option" where
  "from_chars_bit_int from_chars N cs x base =
     (if \<not> N \<le> 128 then None
      else do {
        width \<leftarrow> int_least N;
        (result, val) \<leftarrow> from_chars width cs 0 base;
        let x' = signed_take_bit (N - 1) val;
        Some (if ec result = errc_ok \<and> x' \<noteq> val
              then result\<lparr>ec := result_out_of_range\<rparr> else result, x')
      })"

definition from_chars_bit_uint ::
  "carrier_from_chars \<Rightarrow> nat \<Rightarrow> string \<Rightarrow> int \<Rightarrow> int \<Rightarrow> (chars_result \<times> int) option" where
  "from_chars_bit_uint from_chars N cs x base =
     (if \<not> N \<le> 128 then None
      else do {
        width \<leftarrow> uint_least N;
        (result, val) \<leftarrow> from_chars width cs 0 base;
        let x' = take_bit N val;
        Some (if ec result = errc_ok \<and> x' \<noteq> val
              then result\<lparr>ec := result_out_of_range\<rparr> else result, x')
      })"

section \<open>The values of the tables\<close>

lemma digits_unfold:
  "u64_max_representable_digits base =
     (if 2 \<le> base \<and> base \<le> 36 then u64_max_representable_digits_naive base else None)"
proof (cases "2 \<le> base \<and> base \<le> 36")
  case True
  then have *: "nat base < 37" "\<not> nat base < 2" "int (nat base) = base" by auto
  have "u64_max_representable_digits_table ! nat base = u64_max_representable_digits_naive (int (nat base))"
    unfolding u64_max_representable_digits_table_def using *(1,2) by (simp del: upt_Suc)
  then show ?thesis using True * by (simp add: u64_max_representable_digits_def)
next
  case False
  then show ?thesis by (auto simp add: u64_max_representable_digits_def)
qed
lemma power_unfold:
  "u64_max_power base =
     (if 2 \<le> base \<and> base \<le> 36
      then map_option (\<lambda>max_exponent. u64_pow_naive (word_of_int base) (int max_exponent))
             (u64_max_representable_digits base)
      else None)"
proof (cases "2 \<le> base \<and> base \<le> 36")
  case True
  then have *: "nat base < 37" "\<not> nat base < 2" "int (nat base) = base" by auto
  have "u64_max_power_table ! nat base =
     map_option (\<lambda>max_exponent. u64_pow_naive (of_nat (nat base)) (int max_exponent))
             (u64_max_representable_digits (int (nat base)))"
    unfolding u64_max_power_table_def using *(1,2) by (simp del: upt_Suc)
  then show ?thesis using True * by (simp add: u64_max_power_def)
next
  case False
  then show ?thesis by (auto simp add: u64_max_power_def)
qed
lemma digits_values:
 "u64_max_representable_digits 2 = Some 64"
 "u64_max_representable_digits 3 = Some 40"
 "u64_max_representable_digits 4 = Some 32"
 "u64_max_representable_digits 5 = Some 27"
 "u64_max_representable_digits 6 = Some 24"
 "u64_max_representable_digits 7 = Some 22"
 "u64_max_representable_digits 8 = Some 21"
 "u64_max_representable_digits 9 = Some 20"
 "u64_max_representable_digits 10 = Some 19"
 "u64_max_representable_digits 11 = Some 18"
 "u64_max_representable_digits 12 = Some 17"
 "u64_max_representable_digits 13 = Some 17"
 "u64_max_representable_digits 14 = Some 16"
 "u64_max_representable_digits 15 = Some 16"
 "u64_max_representable_digits 16 = Some 16"
 "u64_max_representable_digits 17 = Some 15"
 "u64_max_representable_digits 18 = Some 15"
 "u64_max_representable_digits 19 = Some 15"
 "u64_max_representable_digits 20 = Some 14"
 "u64_max_representable_digits 21 = Some 14"
 "u64_max_representable_digits 22 = Some 14"
 "u64_max_representable_digits 23 = Some 14"
 "u64_max_representable_digits 24 = Some 13"
 "u64_max_representable_digits 25 = Some 13"
 "u64_max_representable_digits 26 = Some 13"
 "u64_max_representable_digits 27 = Some 13"
 "u64_max_representable_digits 28 = Some 13"
 "u64_max_representable_digits 29 = Some 13"
 "u64_max_representable_digits 30 = Some 13"
 "u64_max_representable_digits 31 = Some 12"
 "u64_max_representable_digits 32 = Some 12"
 "u64_max_representable_digits 33 = Some 12"
 "u64_max_representable_digits 34 = Some 12"
 "u64_max_representable_digits 35 = Some 12"
 "u64_max_representable_digits 36 = Some 12"
  by (simp_all add: digits_unfold u64_max_representable_digits_naive_def naive_loop.simps)
lemma power_values:
  "u64_max_power 2 = Some 0"
  "u64_max_power 3 = Some 12157665459056928801"
  "u64_max_power 4 = Some 0"
  "u64_max_power 5 = Some 7450580596923828125"
  "u64_max_power 6 = Some 4738381338321616896"
  "u64_max_power 7 = Some 3909821048582988049"
  "u64_max_power 8 = Some 9223372036854775808"
  "u64_max_power 9 = Some 12157665459056928801"
  "u64_max_power 10 = Some 10000000000000000000"
  "u64_max_power 11 = Some 5559917313492231481"
  "u64_max_power 12 = Some 2218611106740436992"
  "u64_max_power 13 = Some 8650415919381337933"
  "u64_max_power 14 = Some 2177953337809371136"
  "u64_max_power 15 = Some 6568408355712890625"
  "u64_max_power 16 = Some 0"
  "u64_max_power 17 = Some 2862423051509815793"
  "u64_max_power 18 = Some 6746640616477458432"
  "u64_max_power 19 = Some 15181127029874798299"
  "u64_max_power 20 = Some 1638400000000000000"
  "u64_max_power 21 = Some 3243919932521508681"
  "u64_max_power 22 = Some 6221821273427820544"
  "u64_max_power 23 = Some 11592836324538749809"
  "u64_max_power 24 = Some 876488338465357824"
  "u64_max_power 25 = Some 1490116119384765625"
  "u64_max_power 26 = Some 2481152873203736576"
  "u64_max_power 27 = Some 4052555153018976267"
  "u64_max_power 28 = Some 6502111422497947648"
  "u64_max_power 29 = Some 10260628712958602189"
  "u64_max_power 30 = Some 15943230000000000000"
  "u64_max_power 31 = Some 787662783788549761"
  "u64_max_power 32 = Some 1152921504606846976"
  "u64_max_power 33 = Some 1667889514952984961"
  "u64_max_power 34 = Some 2386420683693101056"
  "u64_max_power 35 = Some 3379220508056640625"
  "u64_max_power 36 = Some 4738381338321616896"
  by (simp_all add: power_unfold digits_values u64_pow_naive_def u64_pow_loop.simps)

lemma base_cases:
  assumes "2 \<le> (b::int)" "b \<le> 36"
  shows "b = 2 \<or> b = 3 \<or> b = 4 \<or> b = 5 \<or> b = 6 \<or> b = 7 \<or> b = 8 \<or> b = 9 \<or> b = 10 \<or> b = 11
     \<or> b = 12 \<or> b = 13 \<or> b = 14 \<or> b = 15 \<or> b = 16 \<or> b = 17 \<or> b = 18 \<or> b = 19 \<or> b = 20
     \<or> b = 21 \<or> b = 22 \<or> b = 23 \<or> b = 24 \<or> b = 25 \<or> b = 26 \<or> b = 27 \<or> b = 28 \<or> b = 29
     \<or> b = 30 \<or> b = 31 \<or> b = 32 \<or> b = 33 \<or> b = 34 \<or> b = 35 \<or> b = 36"
  using assms by presburger

lemma takeWhile_True [simp]: "takeWhile (\<lambda>n. True) xs = xs"
  by (induction xs) simp_all

lemma countl_zero_0 [simp]: "countl_zero 0 = 64"
  by (simp add: countl_zero_def)

lemma countr_zero_0 [simp]: "countr_zero 0 = 64"
  by (simp add: countr_zero_def)

lemmas from_chars_eval =
  from_chars_u128_def from_chars_i128_def digits_values power_values
  from_chars_loop.simps from_chars_pow2_loop.simps
  std_from_chars_u64_def std_from_chars_unsigned_def std_from_chars_i64_def
  std_from_chars_signed_def parse_value_def digit_value_def mul_overflow_def
  add_overflow_def Let_def

lemmas to_chars_eval =
  to_chars_u128.simps to_chars_i128_def digits_values power_values std_to_chars_u64_def
  std_to_chars_i64_def to_digits.simps digit_char_def write_chars_def ranges_copy_def
  ranges_fill_n_def Let_def

section \<open>Radix metadata: the digit counts and the powers\<close>

lemma floor_log_from_powers:
  fixes b :: int and d :: nat
  assumes "2 \<le> b" "b ^ d \<le> 2 ^ 64" "2 ^ 64 < b ^ Suc d"
  shows "int d = \<lfloor>64 * ln 2 / ln (real_of_int b)\<rfloor>"
proof -
  let ?b = "real_of_int b"
  have b: "1 < ?b" using assms(1) by simp
  then have lnb: "0 < ln ?b" by simp
  have l2: "ln ((2::real) ^ 64) = 64 * ln 2"
    by (subst ln_realpow) simp_all
  have ld: "ln (?b ^ n) = real n * ln ?b" for n
    using b by (subst ln_realpow) simp_all
  have "?b ^ d \<le> 2 ^ 64"
    using assms(2) by (metis of_int_le_iff of_int_numeral of_int_power)
  then have "ln (?b ^ d) \<le> ln (2 ^ 64 :: real)"
    using b by (subst ln_le_cancel_iff) auto
  then have le: "real d * ln ?b \<le> 64 * ln 2"
    unfolding l2 ld .
  have "(2 ^ 64 :: real) < ?b ^ Suc d"
    using assms(3) by (metis of_int_less_iff of_int_numeral of_int_power)
  then have "ln (2 ^ 64 :: real) < ln (?b ^ Suc d)"
    using b by (subst ln_less_cancel_iff) auto
  then have "64 * ln 2 < real (Suc d) * ln ?b"
    unfolding l2 ld .
  then have lt: "64 * ln 2 < (real d + 1) * ln ?b"
    by (simp add: add.commute)
  have "real d \<le> 64 * ln 2 / ln ?b"
    using le lnb by (simp add: pos_le_divide_eq)
  moreover have "64 * ln 2 / ln ?b < real d + 1"
    using lt lnb by (simp add: pos_divide_less_eq)
  ultimately show ?thesis
    by (intro floor_unique [symmetric]) auto
qed

lemma digits_bounds:
  assumes "2 \<le> b" "b \<le> 36"
  shows "\<exists>d. u64_max_representable_digits b = Some d \<and> b ^ d \<le> 2 ^ 64 \<and> 2 ^ 64 < b ^ Suc d"
  using base_cases [OF assms] by (elim disjE) (simp_all add: digits_values)

text \<open>
  C9. For every base \<open>b\<close> from 2 to 36, \<open>u64_max_representable_digits b\<close> is the largest
  \<open>d\<close> with \<open>b ^ d \<le> 2 ^ 64\<close> (the next power is beyond \<open>2 ^ 64\<close>), which is the floor of
  \<open>64 * ln 2 / ln b\<close>; it is 64, 21, 19 and 16 for the bases 2, 8, 10 and 16.
\<close>

theorem u64_max_representable_digits_largest:
  assumes "2 \<le> b" "b \<le> 36"
  shows "(\<exists>d. u64_max_representable_digits b = Some d \<and> b ^ d \<le> 2 ^ 64 \<and> 2 ^ 64 < b ^ Suc d
            \<and> int d = \<lfloor>64 * ln 2 / ln (real_of_int b)\<rfloor>)
         \<and> u64_max_representable_digits 2 = Some 64
         \<and> u64_max_representable_digits 8 = Some 21
         \<and> u64_max_representable_digits 10 = Some 19
         \<and> u64_max_representable_digits 16 = Some 16"
proof -
  obtain d where d: "u64_max_representable_digits b = Some d" "b ^ d \<le> 2 ^ 64" "2 ^ 64 < b ^ Suc d"
    using digits_bounds [OF assms] by blast
  have "int d = \<lfloor>64 * ln 2 / ln (real_of_int b)\<rfloor>"
    using floor_log_from_powers [OF assms(1) d(2) d(3)] .
  with d show ?thesis by (simp add: digits_values)
qed

theorem u64_max_representable_digits_largest_witness:
  "(2::int) \<le> 10 \<and> (10::int) \<le> 36 \<and> u64_max_representable_digits 10 = Some 19
     \<and> (10::int) ^ 19 \<le> 2 ^ 64 \<and> (2::int) ^ 64 < 10 ^ Suc 19
     \<and> int 19 = \<lfloor>64 * ln 2 / ln (real_of_int 10)\<rfloor>"
  using u64_max_representable_digits_largest [of 10] by (simp add: digits_values)

text \<open>
  C6, as the header has it. For every base \<open>b\<close> from 2 to 36, \<open>u64_max_power b\<close> is
  \<open>b ^ d\<close> reduced modulo \<open>2 ^ 64\<close>, where \<open>d\<close> is \<open>u64_max_representable_digits b\<close>: it is
  \<open>b ^ d\<close> itself when that is below \<open>2 ^ 64\<close>, and it is the sentinel 0 exactly when
  \<open>b ^ d\<close> is \<open>2 ^ 64\<close>, which happens for the bases 2, 4 and 16 and for no other base.
  The power-of-two bases 8 and 32 get \<open>2 ^ 63\<close> and \<open>2 ^ 60\<close>, as the header's own
  \<open>static_assert\<close> on base 8 says.
\<close>

theorem u64_max_power_value:
  assumes "2 \<le> b" "b \<le> 36"
  shows "\<exists>d P. u64_max_representable_digits b = Some d \<and> u64_max_power b = Some P
           \<and> uint P = b ^ d mod 2 ^ 64
           \<and> (b ^ d < 2 ^ 64 \<longrightarrow> uint P = b ^ d)
           \<and> (P = 0 \<longleftrightarrow> b ^ d = 2 ^ 64)
           \<and> (P = 0 \<longleftrightarrow> b = 2 \<or> b = 4 \<or> b = 16)"
  using base_cases [OF assms] by (elim disjE) (simp_all add: digits_values power_values)

theorem u64_max_power_value_witness:
  "(2::int) \<le> 8 \<and> (8::int) \<le> 36 \<and> u64_max_representable_digits 8 = Some 21
     \<and> u64_max_power 8 = Some 9223372036854775808
     \<and> uint (9223372036854775808 :: uint64_t) = 8 ^ 21 mod 2 ^ 64"
  using u64_max_power_value [of 8] by (simp add: digits_values power_values)

theorem u64_max_power_base_8_not_sentinel:
  "u64_max_power 8 = Some 9223372036854775808 \<and> u64_max_power 8 \<noteq> Some 0
     \<and> (8::int) = 2 ^ 3 \<and> (8::int) AND (8 - 1) = 0"
  by (simp add: power_values)

section \<open>Where the header departs from its contract\<close>

text \<open>
  C2. \<open>to_chars\<close> pads a lower piece to its full width without asking whether the padded
  piece still fits. With a buffer of two characters, base 10 and the value
  \<open>2 * 10 ^ 19\<close>, the upper part "2" and the unpadded lower part "0" fit, the call
  succeeds, the returned pointer is 20 (beyond \<open>last = 2\<close>), and the addresses 2 to 19,
  outside the buffer, have been written.
\<close>

theorem to_chars_u128_writes_past_last:
  "map_option (\<lambda>(r, mem'). (ptr r, ec r, map mem' [0, 1, 2, 3, 18, 19, 20]))
     (to_chars_u128 (\<lambda>a. CHR ''.'') 0 2 20000000000000000000 10)
   = Some (20, errc_ok, ''200000.'')"
  by (simp add: to_chars_eval)

theorem to_chars_u128_writes_past_last_witness:
  "(case to_chars_u128 (\<lambda>a. CHR ''.'') 0 2 20000000000000000000 10 of
      None \<Rightarrow> False
    | Some (r, mem') \<Rightarrow> ec r = errc_ok \<and> 2 < ptr r \<and> mem' 19 \<noteq> CHR ''.'')"
  using to_chars_u128_writes_past_last by (auto split: option.splits)

text \<open>
  C3. In a base that is not a power of two the positional factor is multiplied by
  \<open>max_pow\<close> with a plain, wrapping multiplication. From the fourth chunk on it has
  wrapped, and the checked operations are applied to the wrapped factor. The decimal
  string of \<open>10 ^ 57\<close> (far beyond \<open>2 ^ 128\<close>) parses with success, and the value
  stored is \<open>10 ^ 57 mod 2 ^ 128\<close>.
\<close>

theorem from_chars_u128_accepts_overflow:
  "from_chars_u128 ''1000000000000000000000000000000000000000000000000000000000'' 0 10
     = Some (\<lparr>ptr = 58, ec = errc_ok\<rparr>, 313686354140541217734174016852339982336)"
  by (simp add: from_chars_eval)

theorem from_chars_u128_accepts_overflow_witness:
  "map_option (ec \<circ> fst)
     (from_chars_u128 ''1000000000000000000000000000000000000000000000000000000000'' 0 10)
     = Some errc_ok
   \<and> (2::int) ^ 128 \<le> 10 ^ 57
   \<and> (313686354140541217734174016852339982336 :: int) = 10 ^ 57 mod 2 ^ 128"
  using from_chars_u128_accepts_overflow by simp

text \<open>
  C4. In a power-of-two base a chunk of zeros beyond bit 128 is reported as out of range:
  its shift alone exceeds 128. In base 16 a string of 49 zeros, whose value is 0, is
  refused and \<open>out\<close> keeps its old value.
\<close>

theorem from_chars_u128_rejects_zero:
  "from_chars_u128 ''0000000000000000000000000000000000000000000000000'' 7 16
     = Some (\<lparr>ptr = 49, ec = result_out_of_range\<rparr>, 7)"
  by (simp add: from_chars_eval)

theorem from_chars_u128_rejects_zero_witness:
  "map_option (ec \<circ> fst)
     (from_chars_u128 ''0000000000000000000000000000000000000000000000000'' 7 16)
     = Some result_out_of_range
   \<and> parse_value 16 ''0000000000000000000000000000000000000000000000000'' = 0"
  using from_chars_u128_rejects_zero by (simp add: parse_value_def digit_value_def)

text \<open>
  C5. A negative input too long for the 64-bit fast path is handed to the unsigned
  parser from \<open>first + 1\<close>, and its result is returned as it is. When no digit follows
  the minus sign, the error is \<open>invalid_argument\<close> and the pointer is \<open>first + 1\<close>, not
  \<open>first\<close>. The same prefix in a short input takes the fast path and gets \<open>first\<close>.
\<close>

theorem from_chars_i128_invalid_argument_pointer:
  "from_chars_i128 ''-xxxxxxxxxxxxxxxxxx'' 5 10 = Some (\<lparr>ptr = 1, ec = invalid_argument\<rparr>, 0)
   \<and> from_chars_i128 ''-x'' 5 10 = Some (\<lparr>ptr = 0, ec = invalid_argument\<rparr>, 0)"
  by (simp add: from_chars_eval)

theorem from_chars_i128_invalid_argument_pointer_witness:
  "map_option (\<lambda>(r, out). (ec r, ptr r)) (from_chars_i128 ''-xxxxxxxxxxxxxxxxxx'' 5 10)
     = Some (invalid_argument, 1)"
  using from_chars_i128_invalid_argument_pointer by simp

text \<open>
  C10. In a base that is not a power of two the loop of the unsigned parser does not
  return at once when the chunk fails to parse: it goes on to \<open>out = result\<close>. An input
  with no digit gives \<open>invalid_argument\<close> and stores 0 in \<open>out\<close>. The power-of-two branch
  returns before the assignment and leaves \<open>out\<close> as it was.
\<close>

theorem from_chars_u128_assigns_out_on_error:
  "from_chars_u128 ''x'' 5 10 = Some (\<lparr>ptr = 0, ec = invalid_argument\<rparr>, 0)
   \<and> from_chars_u128 ''x'' 5 16 = Some (\<lparr>ptr = 0, ec = invalid_argument\<rparr>, 5)"
  by (simp add: from_chars_eval)

theorem from_chars_u128_assigns_out_on_error_witness:
  "map_option snd (from_chars_u128 ''x'' 5 10) = Some 0 \<and> (0 :: uint128_t) \<noteq> 5"
  using from_chars_u128_assigns_out_on_error by simp

section \<open>The narrowing check of the bit-precise wrappers\<close>

lemma int_least_smallest:
  assumes "int_least N = Some w"
  shows "N \<le> w \<and> w \<in> {8, 16, 32, 64, 128}
           \<and> (\<forall>w' \<in> {8, 16, 32, 64, 128}. N \<le> w' \<longrightarrow> w \<le> w')"
  using assms by (auto simp add: int_least_def split: if_splits)

lemma uint_least_smallest:
  assumes "uint_least N = Some w"
  shows "N \<le> w \<and> w \<in> {8, 16, 32, 64, 128}
           \<and> (\<forall>w' \<in> {8, 16, 32, 64, 128}. N \<le> w' \<longrightarrow> w \<le> w')"
  using assms by (auto simp add: uint_least_def split: if_splits)

lemma int_least_total: "N \<le> 128 \<Longrightarrow> \<exists>w. int_least N = Some w"
  by (simp add: int_least_def)

lemma uint_least_total: "N \<le> 128 \<Longrightarrow> \<exists>w. uint_least N = Some w"
  by (simp add: uint_least_def)

lemma signed_narrowing_exact:
  assumes "0 < N"
  shows "signed_take_bit (N - 1) v = v \<longleftrightarrow> - (2 ^ (N - 1)) \<le> v \<and> v < (2 ^ (N - 1) :: int)"
  by (simp add: signed_take_bit_int_eq_self_iff)

lemma unsigned_narrowing_exact:
  "take_bit N v = v \<longleftrightarrow> 0 \<le> v \<and> v < (2 ^ N :: int)"
  by (simp add: take_bit_int_eq_self_iff)

text \<open>
  C7. For a width \<open>N\<close> from 1 to 128 the wrappers parse into the smallest carrier among
  8, 16, 32, 64 and 128 bits that holds \<open>N\<close> bits. When the carrier's parse succeeds and
  its value is not representable in \<open>N\<close> bits (narrowing and widening again gives
  another value), the error code becomes \<open>result_out_of_range\<close>; in every other case the
  error code of the carrier's parse is returned, and the pointer always is.
\<close>

theorem from_chars_bit_narrowing:
  assumes "0 < N" "N \<le> 128"
  shows "\<exists>ws wu.
           int_least N = Some ws \<and> uint_least N = Some wu
           \<and> N \<le> ws \<and> ws \<in> {8, 16, 32, 64, 128}
           \<and> (\<forall>w' \<in> {8, 16, 32, 64, 128}. N \<le> w' \<longrightarrow> ws \<le> w')
           \<and> N \<le> wu \<and> wu \<in> {8, 16, 32, 64, 128}
           \<and> (\<forall>w' \<in> {8, 16, 32, 64, 128}. N \<le> w' \<longrightarrow> wu \<le> w')
           \<and> (\<forall>r v. from_chars ws cs 0 base = Some (r, v) \<longrightarrow>
                 from_chars_bit_int from_chars N cs x base =
                   Some (\<lparr>ptr = ptr r,
                          ec = (if ec r = errc_ok \<and> \<not> (- (2 ^ (N - 1)) \<le> v \<and> v < 2 ^ (N - 1))
                                then result_out_of_range else ec r)\<rparr>,
                         signed_take_bit (N - 1) v))
           \<and> (\<forall>r v. from_chars wu cs 0 base = Some (r, v) \<longrightarrow>
                 from_chars_bit_uint from_chars N cs x base =
                   Some (\<lparr>ptr = ptr r,
                          ec = (if ec r = errc_ok \<and> \<not> (0 \<le> v \<and> v < 2 ^ N)
                                then result_out_of_range else ec r)\<rparr>,
                         take_bit N v))"
proof -
  obtain ws where ws: "int_least N = Some ws"
    using int_least_total [OF assms(2)] by blast
  obtain wu where wu: "uint_least N = Some wu"
    using uint_least_total [OF assms(2)] by blast
  have signed: "from_chars_bit_int from_chars N cs x base =
      Some (\<lparr>ptr = ptr r,
             ec = (if ec r = errc_ok \<and> \<not> (- (2 ^ (N - 1)) \<le> v \<and> v < 2 ^ (N - 1))
                   then result_out_of_range else ec r)\<rparr>,
            signed_take_bit (N - 1) v)"
    if "from_chars ws cs 0 base = Some (r, v)" for r v
    using that ws assms signed_narrowing_exact [OF assms(1), of v]
    by (cases r) (simp add: from_chars_bit_int_def)
  have unsigned: "from_chars_bit_uint from_chars N cs x base =
      Some (\<lparr>ptr = ptr r,
             ec = (if ec r = errc_ok \<and> \<not> (0 \<le> v \<and> v < 2 ^ N)
                   then result_out_of_range else ec r)\<rparr>,
            take_bit N v)"
    if "from_chars wu cs 0 base = Some (r, v)" for r v
    using that wu assms unsigned_narrowing_exact [of N v]
    by (cases r) (simp add: from_chars_bit_uint_def)
  show ?thesis
    using ws wu int_least_smallest [OF ws] uint_least_smallest [OF wu] signed unsigned
    by blast
qed

theorem from_chars_bit_narrowing_witness:
  "(0::nat) < 4 \<and> (4::nat) \<le> 128 \<and> uint_least 4 = Some 8 \<and> int_least 4 = Some 8
   \<and> std_from_chars_unsigned 8 ''16'' 0 10 = (\<lparr>ptr = 2, ec = errc_ok\<rparr>, 16)
   \<and> from_chars_bit_uint (\<lambda>w cs v b. Some (std_from_chars_unsigned w cs v b)) 4 ''16'' 0 10
       = Some (\<lparr>ptr = 2, ec = result_out_of_range\<rparr>, 0)
   \<and> std_from_chars_signed 8 ''-9'' 0 10 = (\<lparr>ptr = 2, ec = errc_ok\<rparr>, - 9)
   \<and> from_chars_bit_int (\<lambda>w cs v b. Some (std_from_chars_signed w cs v b)) 4 ''-9'' 0 10
       = Some (\<lparr>ptr = 2, ec = result_out_of_range\<rparr>, 7)"
proof -
  have u: "uint_least 4 = Some 8" and s: "int_least 4 = Some 8"
    by (simp_all add: uint_least_def int_least_def)
  have pu: "std_from_chars_unsigned 8 ''16'' 0 10 = (\<lparr>ptr = 2, ec = errc_ok\<rparr>, 16)"
    by (simp add: from_chars_eval)
  have ps: "std_from_chars_signed 8 ''-9'' 0 10 = (\<lparr>ptr = 2, ec = errc_ok\<rparr>, - 9)"
    by (simp add: from_chars_eval)
  have "signed_take_bit 3 (- 9 :: int) = 7"
    by (simp add: signed_take_bit_eq_take_bit_shift mask_eq_exp_minus_1)
  then show ?thesis
    using from_chars_bit_narrowing
            [of 4 "\<lambda>w cs v b. Some (std_from_chars_unsigned w cs v b)" "''16''" 10 0]
          from_chars_bit_narrowing
            [of 4 "\<lambda>w cs v b. Some (std_from_chars_signed w cs v b)" "''-9''" 10 0]
          u s pu ps
    by (simp add: mask_eq_exp_minus_1)
qed

end
